theory Spec2Isabelle
  imports Complex_Main
begin

section \<open>The external library, as far as the example programs see it\<close>

text \<open>
  The nine programs are glue code over an optimisation, simulation and visualisation
  library. The library is not part of the repository, so it enters the model in two ways:
  every call a program makes is recorded, in program order, as an \<open>event\<close> of a trace,
  and every value the library hands back (a solver result, a file pointer, logged
  samples) is read from a record \<open>lib\<close> of oracles that the programs take as a
  parameter. Every library call is taken to return; what the library does inside a call
  (threads, exceptions, blocking) is outside the model. Doubles are idealised as reals:
  the programs do no arithmetic on them beyond building the constants they pass on.
\<close>

subsection \<open>Symbolic expressions and formulas\<close>

text \<open>
  A variable is identified by its position in the order of creation. The programs build
  expressions with \<open>+\<close>, \<open>-\<close>, \<open>*\<close>, unary minus and \<open>pow\<close>, the latter only with the literal
  exponents 2 and 3, and formulas with \<open>>=\<close>, \<open><=\<close> and \<open>==\<close>.
\<close>

type_synonym var = nat

datatype expr =
    Var var
  | Const real
  | Add expr expr
  | Sub expr expr
  | Mul expr expr
  | Neg expr
  | Pow expr nat

datatype formula =
    Ge expr expr
  | Le expr expr
  | Eq expr expr

fun eval :: "(var \<Rightarrow> real) \<Rightarrow> expr \<Rightarrow> real" where
  "eval env (Var v) = env v"
| "eval env (Const c) = c"
| "eval env (Add a b) = eval env a + eval env b"
| "eval env (Sub a b) = eval env a - eval env b"
| "eval env (Mul a b) = eval env a * eval env b"
| "eval env (Neg a) = - eval env a"
| "eval env (Pow a n) = eval env a ^ n"

fun holds :: "(var \<Rightarrow> real) \<Rightarrow> formula \<Rightarrow> bool" where
  "holds env (Ge a b) = (eval env a \<ge> eval env b)"
| "holds env (Le a b) = (eval env a \<le> eval env b)"
| "holds env (Eq a b) = (eval env a = eval env b)"

text \<open>\<open>scoped n e\<close>: every variable of \<open>e\<close> is one of the first \<open>n\<close> declared.\<close>

fun scoped :: "nat \<Rightarrow> expr \<Rightarrow> bool" where
  "scoped n (Var v) = (v < n)"
| "scoped n (Const c) = True"
| "scoped n (Add a b) = (scoped n a \<and> scoped n b)"
| "scoped n (Sub a b) = (scoped n a \<and> scoped n b)"
| "scoped n (Mul a b) = (scoped n a \<and> scoped n b)"
| "scoped n (Neg a) = scoped n a"
| "scoped n (Pow a k) = scoped n a"

fun scoped_formula :: "nat \<Rightarrow> formula \<Rightarrow> bool" where
  "scoped_formula n (Ge a b) = (scoped n a \<and> scoped n b)"
| "scoped_formula n (Le a b) = (scoped n a \<and> scoped n b)"
| "scoped_formula n (Eq a b) = (scoped n a \<and> scoped n b)"

subsection \<open>Values that cross the library boundary\<close>

datatype solution_result =
    kSolutionFound
  | kInvalidInput
  | kInfeasibleConstraints
  | kUnbounded
  | kSolverSpecificError
  | kInfeasibleOrUnbounded
  | kIterationLimit
  | kDualInfeasible
  | kSolutionResultNotSet

datatype binding = ConstraintBinding formula | CostBinding expr

text \<open>
  A \<open>char*\<close> read from \<open>argv\<close>: a string, the null pointer that ends the array, or a
  read past the end of the array. A \<open>FILE*\<close> returned by \<open>fopen\<close>: null when the file
  could not be opened.
\<close>

datatype cptr = CStr string | CNull | COutOfBounds

datatype file_ptr = FilePtr string string | NullFile

datatype item =
    PStr string
  | PCStr cptr
  | PBool bool
  | PInt int
  | PReal real
  | PVec "real list"
  | PVar var
  | PVars "var list"
  | PVarMatrix "var list list"
  | PExpr expr
  | PBinding binding
  | PSolutionResult solution_result

datatype callback = Update

datatype solver = ChooseBestSolver | IpoptSolver

datatype getter =
    Get_is_success
  | Get_solution_result
  | Get_GetSolution
  | Get_optimal_cost
  | Get_solver_id
  | Get_solver_details

datatype arg =
    AStr string
  | AInt int
  | AReal real
  | ABool bool
  | AVec "real list"
  | AMat "real list list"
  | AFile file_ptr
  | AExpr expr
  | AObj string

datatype event =
    E_NewContinuousVariables nat nat string
  | E_AddConstraint formula
  | E_AddCost expr
  | E_AddVisualizationCallback callback "var list"
  | E_Solve solver "real list option"
  | E_Result getter
  | E_Stdout "item list"
  | E_Call string "arg list"

text \<open>
  How a run of \<open>main\<close> ends: it returns an exit code, or it reaches undefined behaviour
  of the language (an index out of range, a \<open>std::string\<close> built from a null pointer).
  Both carry the trace up to that point.
\<close>

datatype ub_kind = IndexOutOfRange | StringFromNull | ArgvOutOfBounds

datatype outcome =
    Exit (events: "event list") int
  | UB (events: "event list") ub_kind

subsection \<open>The oracles\<close>

text \<open>
  Besides what the library returns, \<open>lib\<close> holds one choice of the language
  implementation: \<open>args_left_to_right\<close>, the order in which the arguments of one call
  are evaluated, which the language leaves open.
\<close>

record result =
  is_success :: bool
  get_solution_result :: solution_result
  x_val :: "var \<Rightarrow> real"
  get_optimal_cost :: real
  solver_name :: string
  ipopt_status :: int
  ipopt_status_string :: string

record solver_reply =
  iterates :: "(var \<Rightarrow> real) list"
  reply_result :: result

record program =
  nvars :: nat
  constraints :: "formula list"
  costs :: "expr list"
  callbacks :: "(callback \<times> var list) list"

record lib =
  choose_best_solve :: "program \<Rightarrow> real list option \<Rightarrow> solver_reply"
  ipopt_solve :: "program \<Rightarrow> real list option \<Rightarrow> solver_reply"
  fopen_ok :: "string \<Rightarrow> string \<Rightarrow> bool"
  gvFreeContext_ret :: int
  graphviz_string :: string
  sample_times :: "real list"
  log_data :: "real list list"
  args_left_to_right :: bool

subsection \<open>The mathematical program object, read off the trace\<close>

fun num_vars :: "event list \<Rightarrow> nat" where
  "num_vars [] = 0"
| "num_vars (E_NewContinuousVariables r c nm # es) = r * c + num_vars es"
| "num_vars (e # es) = num_vars es"

fun constraints_of :: "event list \<Rightarrow> formula list" where
  "constraints_of [] = []"
| "constraints_of (E_AddConstraint f # es) = f # constraints_of es"
| "constraints_of (e # es) = constraints_of es"

fun costs_of :: "event list \<Rightarrow> expr list" where
  "costs_of [] = []"
| "costs_of (E_AddCost c # es) = c # costs_of es"
| "costs_of (e # es) = costs_of es"

fun callbacks_of :: "event list \<Rightarrow> (callback \<times> var list) list" where
  "callbacks_of [] = []"
| "callbacks_of (E_AddVisualizationCallback cb vs # es) = (cb, vs) # callbacks_of es"
| "callbacks_of (e # es) = callbacks_of es"

fun stdout_of :: "event list \<Rightarrow> item list list" where
  "stdout_of [] = []"
| "stdout_of (E_Stdout its # es) = its # stdout_of es"
| "stdout_of (e # es) = stdout_of es"

definition program_of :: "event list \<Rightarrow> program" where
  "program_of tr =
     \<lparr>nvars = num_vars tr, constraints = constraints_of tr, costs = costs_of tr,
      callbacks = callbacks_of tr\<rparr>"

text \<open>The total cost of a program at a point: the sum of the costs added.\<close>

definition total_cost :: "(var \<Rightarrow> real) \<Rightarrow> expr list \<Rightarrow> real" where
  "total_cost env cs = sum_list (map (eval env) cs)"

subsection \<open>Library calls\<close>

definition MathematicalProgram :: "event list" where
  "MathematicalProgram = []"

definition NewContinuousVariables :: "nat \<Rightarrow> string \<Rightarrow> event list \<Rightarrow> var list \<times> event list" where
  "NewContinuousVariables rows nm tr =
     (map (\<lambda>i. num_vars tr + i) [0..<rows], tr @ [E_NewContinuousVariables rows 1 nm])"

text \<open>The matrix form: \<open>rows\<close> rows of \<open>cols\<close> fresh variables, numbered column by column.\<close>

definition NewContinuousVariablesMatrix ::
  "nat \<Rightarrow> nat \<Rightarrow> string \<Rightarrow> event list \<Rightarrow> var list list \<times> event list" where
  "NewContinuousVariablesMatrix rows cols nm tr =
     (map (\<lambda>r. map (\<lambda>c. num_vars tr + c * rows + r) [0..<cols]) [0..<rows],
      tr @ [E_NewContinuousVariables rows cols nm])"

definition AddConstraint :: "formula \<Rightarrow> event list \<Rightarrow> binding \<times> event list" where
  "AddConstraint f tr = (ConstraintBinding f, tr @ [E_AddConstraint f])"

definition AddCost :: "expr \<Rightarrow> event list \<Rightarrow> binding \<times> event list" where
  "AddCost c tr = (CostBinding c, tr @ [E_AddCost c])"

definition AddVisualizationCallback :: "callback \<Rightarrow> var list \<Rightarrow> event list \<Rightarrow> event list" where
  "AddVisualizationCallback cb vs tr = tr @ [E_AddVisualizationCallback cb vs]"

definition query :: "getter \<Rightarrow> event list \<Rightarrow> event list" where
  "query g tr = tr @ [E_Result g]"

definition call :: "string \<Rightarrow> arg list \<Rightarrow> event list \<Rightarrow> event list" where
  "call nm as tr = tr @ [E_Call nm as]"

text \<open>
  Indexing a vector (\<open>x[i]\<close>, \<open>row(i)\<close>) with a signed index: defined only inside the
  vector. The rest of the program is the continuation \<open>k\<close>.
\<close>

definition elem :: "'a list \<Rightarrow> int \<Rightarrow> event list \<Rightarrow> ('a \<Rightarrow> outcome) \<Rightarrow> outcome" where
  "elem xs i tr k =
     (if 0 \<le> i \<and> i < int (length xs) then k (xs ! nat i) else UB tr IndexOutOfRange)"

section \<open>The print helper\<close>

text \<open>
  \<open>template <typename... Args> void print(Args&&... value)\<close>, defined with the same
  body in five of the files: every value in turn, then the separator.
\<close>

definition print :: "item list \<Rightarrow> event list \<Rightarrow> event list" where
  "print value tr = tr @ [E_Stdout (value @ [PStr ''\<newline>---\<newline>''])]"

text \<open>
  Modelled from the spec: \<open>print\<close> of \<open>utils/utils.h\<close>, which \<open>basics.cpp\<close> includes and
  which is not among the source files. The spec calls it a trivial print helper; the model
  writes its one argument to standard output and leaves any separator out.
\<close>

definition utils_print :: "item \<Rightarrow> event list \<Rightarrow> event list" where
  "utils_print value tr = tr @ [E_Stdout [value]]"

section \<open>add\_callback.cpp: the callback, and the solver running it\<close>

definition update :: "real list \<Rightarrow> event list \<Rightarrow> event list" where
  "update x tr = print [PStr ''x = '', PVec x] tr"

fun run_callback :: "callback \<Rightarrow> real list \<Rightarrow> event list \<Rightarrow> event list" where
  "run_callback Update x tr = update x tr"

text \<open>
  The solver calls every registered callback at every iterate it visits, with the current
  values of the variables the callback was registered for.
\<close>

fun run_callbacks ::
  "(callback \<times> var list) list \<Rightarrow> (var \<Rightarrow> real) list \<Rightarrow> event list \<Rightarrow> event list" where
  "run_callbacks cbs [] tr = tr"
| "run_callbacks cbs (it # its) tr =
     run_callbacks cbs its (foldl (\<lambda>t (cb, vs). run_callback cb (map it vs) t) tr cbs)"

definition Solve ::
  "lib \<Rightarrow> solver \<Rightarrow> real list option \<Rightarrow> event list \<Rightarrow> result \<times> event list" where
  "Solve lib s guess tr =
     (let rep = (case s of ChooseBestSolver \<Rightarrow> choose_best_solve lib
                         | IpoptSolver \<Rightarrow> ipopt_solve lib) (program_of tr) guess
      in (reply_result rep,
          run_callbacks (callbacks_of tr) (iterates rep) (tr @ [E_Solve s guess])))"

section \<open>The mathematical-program examples\<close>

subsection \<open>simple\_optimization\_problem\_infeasible.cpp\<close>

definition main_infeasible :: "lib \<Rightarrow> string list \<Rightarrow> outcome" where
  "main_infeasible lib args =
     (let prog = MathematicalProgram;
          (xs, prog) = NewContinuousVariables 1 ''x'' prog
      in elem xs 0 prog (\<lambda>x.
     let prog = print [PStr ''x = '', PVar x] prog;
         (ys, prog) = NewContinuousVariables 1 ''x'' prog
      in elem ys 0 prog (\<lambda>y.
     let prog = print [PStr ''y = '', PVar y] prog;
         (constraint1, prog) = AddConstraint (Ge (Add (Var x) (Var y)) (Const 1)) prog;
         prog = print [PStr ''constraint1: '', PBinding constraint1] prog;
         (constraint2, prog) = AddConstraint (Le (Add (Var x) (Var y)) (Const 0)) prog;
         prog = print [PStr ''constraint2: '', PBinding constraint2] prog;
         (cost1, prog) = AddCost (Var x) prog;
         prog = print [PStr ''cost1: '', PBinding cost1] prog;
         (result, prog) = Solve lib ChooseBestSolver None prog;
         prog = query Get_is_success prog;
         prog = print [PStr ''Success: '', PBool (is_success result)] prog;
         prog = query Get_solution_result prog;
         prog = print [PStr ''Solution result: '',
                       PSolutionResult (get_solution_result result)] prog
      in Exit prog 0)))"

subsection \<open>simple\_optimization\_problem\_feasible.cpp\<close>

definition main_feasible :: "lib \<Rightarrow> string list \<Rightarrow> outcome" where
  "main_feasible lib args =
     (let prog = MathematicalProgram;
          (x, prog) = NewContinuousVariables 2 ''x'' prog;
          prog = print [PStr ''x = '', PVars x] prog
      in elem x 0 prog (\<lambda>x0. elem x 1 prog (\<lambda>x1.
     let (constraint1, prog) = AddConstraint (Eq (Add (Var x0) (Var x1)) (Const 1)) prog;
         prog = print [PStr ''constraint1: '', PBinding constraint1] prog
      in elem x 0 prog (\<lambda>x0. elem x 1 prog (\<lambda>x1.
     let (constraint2, prog) = AddConstraint (Le (Var x0) (Var x1)) prog;
         prog = print [PStr ''constraint2: '', PBinding constraint2] prog
      in elem x 0 prog (\<lambda>x0. elem x 1 prog (\<lambda>x1.
     let (cost1, prog) = AddCost (Add (Pow (Var x0) 2) (Pow (Var x1) 2)) prog;
         prog = print [PStr ''cost1: '', PBinding cost1] prog;
         (result, prog) = Solve lib ChooseBestSolver None prog;
         prog = query Get_is_success prog;
         prog = print [PStr ''Success: '', PBool (is_success result)] prog;
         prog = query Get_GetSolution prog;
         prog = print [PStr ''x* = '', PVec (map (x_val result) x)] prog;
         prog = query Get_optimal_cost prog;
         prog = print [PStr ''optimal cost = '', PReal (get_optimal_cost result)] prog;
         prog = query Get_solver_id prog;
         prog = print [PStr ''solver is: '', PStr (solver_name result)] prog
      in Exit prog 0)))))))"

subsection \<open>manually\_choosing\_a\_solver.cpp\<close>

definition main_manually_choosing_a_solver :: "lib \<Rightarrow> string list \<Rightarrow> outcome" where
  "main_manually_choosing_a_solver lib args =
     (let prog = MathematicalProgram;
          (x, prog) = NewContinuousVariables 2 ''x'' prog;
          prog = print [PStr ''x = '', PVars x] prog
      in elem x 0 prog (\<lambda>x0. elem x 1 prog (\<lambda>x1.
     let (constraint1, prog) = AddConstraint (Eq (Add (Var x0) (Var x1)) (Const 1)) prog;
         prog = print [PStr ''constraint1: '', PBinding constraint1] prog
      in elem x 1 prog (\<lambda>x1.
     let (constraint2, prog) = AddConstraint (Le (Const 0) (Var x1)) prog;
         prog = print [PStr ''constraint2: '', PBinding constraint2] prog
      in elem x 1 prog (\<lambda>x1.
     let (constraint3, prog) = AddConstraint (Le (Var x1) (Const 1)) prog;
         prog = print [PStr ''constraint3: '', PBinding constraint3] prog
      in elem x 0 prog (\<lambda>x0.
     let (cost1, prog) = AddCost (Var x0) prog;
         prog = print [PStr ''cost1: '', PBinding cost1] prog;
         solver = IpoptSolver;
         initial_guess = [1, 1];
         (result, prog) = Solve lib solver (Some initial_guess) prog;
         prog = query Get_solution_result prog;
         prog = print [PSolutionResult (get_solution_result result)] prog;
         prog = query Get_GetSolution prog;
         prog = print [PStr ''x* = '', PVec (map (x_val result) x)] prog;
         prog = query Get_solver_id prog;
         prog = print [PStr ''Solver is '', PStr (solver_name result)] prog;
         prog = query Get_solver_details prog;
         prog = query Get_solver_details prog;
         prog = print [PStr ''Ipopt solver status: '', PInt (ipopt_status result),
                       PStr '', meaning '', PStr (ipopt_status_string result)] prog
      in Exit prog 0))))))"

subsection \<open>basics.cpp\<close>

definition main_basics :: "lib \<Rightarrow> outcome" where
  "main_basics lib =
     (let prog = MathematicalProgram;
          (x, prog) = NewContinuousVariables 2 ''x'' prog;
          prog = utils_print (PVars x) prog
      in elem x 0 prog (\<lambda>x0. elem x 1 prog (\<lambda>x1.
     let prog = utils_print
                  (PExpr (Add (Add (Add (Const 1) (Mul (Const 2) (Var x0)))
                                   (Mul (Const 3) (Var x1)))
                              (Mul (Const 4) (Var x1)))) prog;
         (y, prog) = NewContinuousVariables 2 ''dog'' prog;
         prog = utils_print (PVars y) prog
      in elem y 0 prog (\<lambda>y0. elem y 1 prog (\<lambda>y1.
     let prog = utils_print
                  (PExpr (Add (Add (Var y0) (Var y0))
                              (Mul (Mul (Var y1) (Var y1)) (Var y1)))) prog;
         (var_matrix, prog) = NewContinuousVariablesMatrix 3 2 ''A'' prog;
         prog = utils_print (PVarMatrix var_matrix) prog
      in Exit prog 0)))))"

subsection \<open>add\_callback.cpp\<close>

definition main_add_callback :: "lib \<Rightarrow> string list \<Rightarrow> outcome" where
  "main_add_callback lib args =
     (let prog = MathematicalProgram;
          (x, prog) = NewContinuousVariables 2 ''x'' prog
      in elem x 0 prog (\<lambda>x0. elem x 1 prog (\<lambda>x1.
     let (c, prog) = AddConstraint (Eq (Mul (Var x0) (Var x1)) (Const 9)) prog
      in elem x 0 prog (\<lambda>x0. elem x 1 prog (\<lambda>x1.
     let (c, prog) = AddCost (Add (Pow (Var x0) 2) (Pow (Var x1) 2)) prog;
         prog = AddVisualizationCallback Update x prog;
         x_init = [4, 5];
         (result, prog) = Solve lib ChooseBestSolver (Some x_init) prog
      in Exit prog 0)))))"

subsection \<open>good\_or\_bad\_initial\_guess.cpp\<close>

definition main_good_or_bad_initial_guess :: "lib \<Rightarrow> string list \<Rightarrow> outcome" where
  "main_good_or_bad_initial_guess lib args =
     (let prog = MathematicalProgram;
          (x, prog) = NewContinuousVariables 2 ''x'' prog
      in elem x 0 prog (\<lambda>x0. elem x 1 prog (\<lambda>x1.
     let (c, prog) = AddConstraint
                       (Eq (Add (Pow (Var x0) 2) (Pow (Var x1) 2)) (Const 100)) prog
      in elem x 0 prog (\<lambda>x0. elem x 1 prog (\<lambda>x1.
     let (c, prog) = AddCost (Sub (Pow (Var x0) 2) (Pow (Var x1) 2)) prog;
         solver = IpoptSolver;
         (result, prog) = Solve lib solver None prog;
         prog = query Get_is_success prog;
         prog = print [PStr ''Without a good initial guess, success? '',
                       PBool (is_success result)] prog;
         prog = query Get_GetSolution prog;
         prog = print [PStr ''Solution:'', PVec (map (x_val result) x)] prog;
         initial_guess = [- 5, 0];
         (result, prog) = Solve lib solver (Some initial_guess) prog;
         prog = query Get_is_success prog;
         prog = print [PStr ''With a good initial guess, success? '',
                       PBool (is_success result)] prog;
         prog = query Get_GetSolution prog;
         prog = print [PStr ''Solution:'', PVec (map (x_val result) x)] prog
      in Exit prog 0)))))"

section \<open>The dynamical-systems examples\<close>

subsection \<open>symbolic\_vector\_system.cpp\<close>

definition main_symbolic_vector_system :: "lib \<Rightarrow> string list \<Rightarrow> outcome" where
  "main_symbolic_vector_system lib args =
     (let x = (0::var);
          tr = call ''drake::symbolic::Variable'' [AStr ''x''] [];
          tr = call ''DiagramBuilder<double>'' [] tr;
          tr = call ''SymbolicVectorSystemBuilder'' [] tr;
          tr = call ''state'' [AExpr (Var x)] tr;
          tr = call ''dynamics'' [AExpr (Add (Neg (Var x)) (Pow (Var x) 3))] tr;
          tr = call ''output'' [AExpr (Var x)] tr;
          tr = call ''SymbolicVectorSystemBuilder::Build'' [] tr;
          tr = call ''diagram_builder.AddSystem'' [AObj ''SymbolicVectorSystem''] tr;
          tr = call ''system->get_output_port'' [] tr;
          tr = call ''LogVectorOutput<double>''
                 [AObj ''system->get_output_port()'', AObj ''&diagram_builder''] tr;
          tr = call ''diagram_builder.Build'' [] tr;
          tr = call ''diagram->CreateDefaultContext'' [] tr;
          tr = call ''context->SetContinuousState'' [AVec [9 / 10]] tr;
          tr = call ''Simulator<double>'' [AObj ''*diagram'', AObj ''std::move(context)''] tr;
          tr = call ''simulator.Initialize'' [] tr;
          tr = call ''simulator.AdvanceTo'' [AReal 10] tr;
          tr = call ''simulator.get_context'' [] tr;
          tr = call ''logger->FindLog'' [AObj ''simulator.get_context()''] tr;
          tr = call ''plt::figure'' [] tr;
          tr = (if args_left_to_right lib
                then call ''log.data'' [] (call ''log.sample_times'' [] tr)
                else call ''log.sample_times'' [] (call ''log.data'' [] tr));
          tr = call ''plt::plot''
                 [AVec (sample_times lib), AMat (log_data lib), AStr ''tab:red''] tr;
          tr = call ''plt::xlabel'' [AStr ''Sample time''] tr;
          tr = call ''plt::ylabel'' [AStr ''Output''] tr;
          tr = call ''plt::show'' [] tr
      in Exit tr 0)"

subsection \<open>combinations\_of\_systems.cpp\<close>

definition fopen :: "lib \<Rightarrow> string \<Rightarrow> string \<Rightarrow> event list \<Rightarrow> file_ptr \<times> event list" where
  "fopen lib path mode tr =
     (if fopen_ok lib path mode then FilePtr path mode else NullFile,
      call ''fopen'' [AStr path, AStr mode] tr)"

definition createPNGFromDotFile :: "lib \<Rightarrow> string \<Rightarrow> event list \<Rightarrow> bool \<times> event list" where
  "createPNGFromDotFile lib dot_file_name tr =
     (let tr = call ''gvContext'' [] tr;
          (fp, tr) = fopen lib (dot_file_name @ ''.dot'') ''r'' tr;
          tr = call ''agread'' [AFile fp, AInt 0] tr;
          tr = call ''gvLayout'' [AObj ''gvc'', AObj ''g'', AStr ''dot''] tr;
          (out, tr) = fopen lib (dot_file_name @ ''.png'') ''w'' tr;
          tr = call ''gvRender'' [AObj ''gvc'', AObj ''g'', AStr ''png'', AFile out] tr;
          tr = call ''gvFreeLayout'' [AObj ''gvc'', AObj ''g''] tr;
          tr = call ''agclose'' [AObj ''g''] tr;
          tr = call ''gvFreeContext'' [AObj ''gvc''] tr
      in (gvFreeContext_ret lib \<noteq> 0, tr))"

definition main_combinations_of_systems :: "lib \<Rightarrow> string list \<Rightarrow> outcome" where
  "main_combinations_of_systems lib args =
     (let tr = call ''DiagramBuilder<double>'' [] [];
          tr = call ''diagram_builder.AddNamedSystem<PendulumPlant<double>>''
                 [AStr ''pendulum''] tr;
          kp = [10];
          ki = [1];
          kd = [1];
          tr = call ''diagram_builder.AddNamedSystem<PidController<double>>''
                 [AStr ''controller'', AVec kp, AVec ki, AVec kd] tr;
          tr = call ''diagram_builder.Connect''
                 [AObj ''pendulum->get_state_output_port()'',
                  AObj ''controller->get_input_port_estimated_state()''] tr;
          tr = call ''diagram_builder.Connect''
                 [AObj ''controller->get_output_port()'',
                  AObj ''pendulum->get_input_port()''] tr;
          tr = call ''diagram_builder.ExportInput''
                 [AObj ''controller->get_input_port_desired_state()''] tr;
          tr = call ''LogVectorOutput<double>''
                 [AObj ''pendulum->get_state_output_port()'', AObj ''&diagram_builder''] tr;
          tr = call ''logger->set_name'' [AStr ''logger''] tr;
          tr = call ''diagram_builder.Build'' [] tr;
          tr = call ''diagram->set_name'' [AStr ''diagram''] tr;
          tr = call ''std::ofstream'' [AStr ''graph.dot''] tr;
          tr = call ''diagram->GetGraphvizString'' [AInt 2] tr;
          tr = call ''std::ofstream::operator<<'' [AStr (graphviz_string lib)] tr;
          tr = call ''std::ofstream::close'' [] tr;
          (ignored, tr) = createPNGFromDotFile lib ''graph'' tr;
          tr = call ''Simulator<double>'' [AObj ''*diagram''] tr;
          tr = call ''simulator.get_mutable_context'' [] tr;
          desired_angle = pi / 2;
          tr = call ''diagram->GetMutableSubsystemContext''
                 [AObj ''*pendulum'', AObj ''&context''] tr;
          tr = call ''pendulum_context.get_mutable_continuous_state_vector'' [] tr;
          tr = call ''SetFromVector'' [AVec [desired_angle + 1 / 10, 2 / 10]] tr;
          tr = call ''diagram->get_input_port'' [AInt 0] tr;
          tr = call ''FixValue'' [AObj ''&context'', AVec [desired_angle, 0]] tr;
          tr = call ''simulator.Initialize'' [] tr;
          tr = call ''simulator.AdvanceTo'' [AReal 40] tr;
          tr = call ''simulator.get_context'' [] tr;
          tr = call ''logger->FindLog'' [AObj ''simulator.get_context()''] tr;
          tr = call ''log.sample_times'' [] tr;
          t = sample_times lib;
          tr = call ''plt::figure'' [] tr;
          tr = call ''log.data'' [] tr
      in elem (log_data lib) 0 tr (\<lambda>row0.
     let tr = call ''plt::plot'' [AVec t, AVec row0, AStr ''tab:blue''] tr
      in elem t 0 tr (\<lambda>t_first. elem t (int (length t) - 1) tr (\<lambda>t_last.
     let tr = call ''plt::plot''
                [AVec [t_first, t_last], AVec [desired_angle, desired_angle],
                 AStr ''tab:green''] tr;
         tr = call ''plt::xlabel'' [AStr ''Sample time''] tr;
         tr = call ''plt::ylabel'' [AStr ''theta (rad)''] tr;
         tr = call ''plt::show'' [] tr
      in Exit tr 0))))"

section \<open>The multibody example: meshcat\_sdf.cpp\<close>

definition argv_at :: "string list \<Rightarrow> nat \<Rightarrow> cptr" where
  "argv_at args i =
     (if i < length args then CStr (args ! i)
      else if i = length args then CNull
      else COutOfBounds)"

text \<open>The implicit conversion of a \<open>char*\<close> to \<open>std::string\<close> at a call.\<close>

fun std_string :: "cptr \<Rightarrow> ub_kind + string" where
  "std_string (CStr s) = Inr s"
| "std_string CNull = Inl StringFromNull"
| "std_string COutOfBounds = Inl ArgvOutOfBounds"

definition cout :: "item list \<Rightarrow> event list \<Rightarrow> event list" where
  "cout items tr = tr @ [E_Stdout items]"

definition model_inspector :: "string \<Rightarrow> event list \<Rightarrow> event list" where
  "model_inspector filename tr =
     (let tr = call ''meshcat->Delete'' [] tr;
          tr = call ''meshcat->DeleteAddedControls'' [] tr;
          tr = call ''DiagramBuilder<double>'' [] tr;
          tr = call ''AddMultibodyPlantSceneGraph''
                 [AObj ''&diagram_builder'', AReal (1 / 1000)] tr;
          tr = call ''Parser'' [AObj ''&plant''] tr;
          tr = call ''parser.AddModelFromFile'' [AStr filename] tr;
          tr = call ''plant.Finalize'' [] tr;
          tr = call ''MeshcatVisualizer<double>::AddToBuilder''
                 [AObj ''&diagram_builder'', AObj ''scene_graph'', AObj ''meshcat'',
                  AObj ''Role::kPerception'', AStr ''visual''] tr;
          tr = call ''MeshcatVisualizer<double>::AddToBuilder''
                 [AObj ''&diagram_builder'', AObj ''scene_graph'', AObj ''meshcat'',
                  AObj ''Role::kProximity'', AStr ''collision''] tr;
          tr = call ''meshcat->SetProperty''
                 [AStr ''collision'', AStr ''visible'', ABool False] tr;
          tr = call ''diagram_builder.AddSystem<JointSliders<double>>''
                 [AObj ''meshcat'', AObj ''&plant''] tr;
          tr = call ''diagram_builder.Build'' [] tr;
          tr = call ''sliders->Run'' [AObj ''*diagram''] tr
      in tr)"

definition main_meshcat_sdf :: "lib \<Rightarrow> string list \<Rightarrow> outcome" where
  "main_meshcat_sdf lib args =
     (let argc = int (length args);
          tr = (if argc \<noteq> 2
                then cout [PStr ''Usage: '', PCStr (argv_at args 0),
                           PStr '' path-to-sdf-file\<newline>''] []
                else []);
          tr = call ''std::make_shared<Meshcat>'' [AInt 8080] tr
      in case std_string (argv_at args 1) of
           Inl u \<Rightarrow> UB tr u
         | Inr filename \<Rightarrow> Exit (model_inspector filename tr) 0)"

section \<open>The nine programs\<close>

definition programs :: "(string \<times> (lib \<Rightarrow> string list \<Rightarrow> outcome)) list" where
  "programs =
     [(''mathematical_program/simple_optimization_problem_infeasible.cpp'', main_infeasible),
      (''mathematical_program/manually_choosing_a_solver.cpp'',
       main_manually_choosing_a_solver),
      (''mathematical_program/basics.cpp'', \<lambda>lib args. main_basics lib),
      (''mathematical_program/add_callback.cpp'', main_add_callback),
      (''mathematical_program/simple_optimization_problem_feasible.cpp'', main_feasible),
      (''mathematical_program/good_or_bad_initial_guess.cpp'',
       main_good_or_bad_initial_guess),
      (''modeling_dynamics_systems/combinations_of_systems.cpp'',
       main_combinations_of_systems),
      (''modeling_dynamics_systems/symbolic_vector_system.cpp'',
       main_symbolic_vector_system),
      (''multibody_kinematics_and_dynamics/meshcat_sdf.cpp'', main_meshcat_sdf)]"

section \<open>Reading traces\<close>

fun exit_code :: "outcome \<Rightarrow> int option" where
  "exit_code (Exit tr c) = Some c"
| "exit_code (UB tr u) = None"


fun is_solve :: "event \<Rightarrow> bool" where
  "is_solve (E_Solve s g) = True"
| "is_solve e = False"

fun is_declare :: "event \<Rightarrow> bool" where
  "is_declare (E_NewContinuousVariables r c nm) = True"
| "is_declare e = False"

fun is_add :: "event \<Rightarrow> bool" where
  "is_add (E_AddConstraint f) = True"
| "is_add (E_AddCost c) = True"
| "is_add e = False"


text \<open>The argument lists of the calls that load a model file.\<close>

fun model_files :: "event list \<Rightarrow> arg list list" where
  "model_files [] = []"
| "model_files (E_Call nm as # es) =
     (if nm = ''parser.AddModelFromFile'' then as # model_files es else model_files es)"
| "model_files (e # es) = model_files es"

text \<open>
  The shape of an event: which call it is, without the values written or passed. Two runs
  with the same shapes made the same calls in the same order.
\<close>

fun shape :: "event \<Rightarrow> event" where
  "shape (E_Stdout its) = E_Stdout []"
| "shape (E_Call nm as) = E_Call nm []"
| "shape e = e"

text \<open>
  The program as it stands when the solver is first called, and what a program writes
  from that call on.
\<close>

definition solved_program :: "event list \<Rightarrow> program" where
  "solved_program tr = program_of (takeWhile (\<lambda>e. \<not> is_solve e) tr)"

definition printed_after_solve :: "event list \<Rightarrow> item list list" where
  "printed_after_solve tr = stdout_of (dropWhile (\<lambda>e. \<not> is_solve e) tr)"

text \<open>The usage line of \<open>meshcat_sdf.cpp\<close>, as \<open>main\<close> writes it.\<close>

definition usage_line :: "string list \<Rightarrow> item list" where
  "usage_line args =
     [PStr ''Usage: '', PCStr (argv_at args 0), PStr '' path-to-sdf-file\<newline>'']"

subsection \<open>The order of use of the mathematical-programming interface\<close>

text \<open>
  Declare decision variables; then add constraints and costs (and callbacks) over the
  variables declared so far; then solve; read a result only once a solver has run.
  \<open>follows_order ph n tr\<close> checks a trace from phase \<open>ph\<close> with \<open>n\<close> variables declared.
\<close>

datatype phase = Declaring | Adding | Solved

fun follows_order :: "phase \<Rightarrow> nat \<Rightarrow> event list \<Rightarrow> bool" where
  "follows_order ph n [] = True"
| "follows_order ph n (E_NewContinuousVariables r c nm # es) =
     (ph = Declaring \<and> follows_order Declaring (n + r * c) es)"
| "follows_order ph n (E_AddConstraint f # es) =
     (ph \<noteq> Solved \<and> scoped_formula n f \<and> follows_order Adding n es)"
| "follows_order ph n (E_AddCost c # es) =
     (ph \<noteq> Solved \<and> scoped n c \<and> follows_order Adding n es)"
| "follows_order ph n (E_AddVisualizationCallback cb vs # es) =
     (ph \<noteq> Solved \<and> list_all (\<lambda>v. v < n) vs \<and> follows_order Adding n es)"
| "follows_order ph n (E_Solve s g # es) = (ph \<noteq> Declaring \<and> follows_order Solved n es)"
| "follows_order ph n (E_Result g # es) = (ph = Solved \<and> follows_order Solved n es)"
| "follows_order ph n (e # es) = follows_order ph n es"

text \<open>
  The order as the specification words it: the program declares variables, adds at least
  one constraint or cost, invokes a solver, and does all of it in order.
\<close>

definition stated_order :: "event list \<Rightarrow> bool" where
  "stated_order tr =
     (follows_order Declaring 0 tr \<and> list_ex is_declare tr \<and> list_ex is_add tr \<and>
      list_ex is_solve tr)"

section \<open>Two concrete libraries\<close>

text \<open>One where everything succeeds, one where the solvers and \<open>fopen\<close> fail.\<close>

definition solved_result :: result where
  "solved_result =
     \<lparr>is_success = True, get_solution_result = kSolutionFound, x_val = (\<lambda>v. 1 / 2),
      get_optimal_cost = 1 / 2, solver_name = ''IPOPT'', ipopt_status = 0,
      ipopt_status_string = ''Solve_Succeeded''\<rparr>"

definition failed_result :: result where
  "failed_result =
     \<lparr>is_success = False, get_solution_result = kInfeasibleConstraints, x_val = (\<lambda>v. 0),
      get_optimal_cost = 0, solver_name = ''IPOPT'', ipopt_status = 2,
      ipopt_status_string = ''Infeasible_Problem_Detected''\<rparr>"

definition working_lib :: lib where
  "working_lib =
     \<lparr>choose_best_solve = (\<lambda>p g. \<lparr>iterates = [], reply_result = solved_result\<rparr>),
      ipopt_solve = (\<lambda>p g. \<lparr>iterates = [], reply_result = solved_result\<rparr>),
      fopen_ok = (\<lambda>path mode. True),
      gvFreeContext_ret = 0,
      graphviz_string = ''digraph _1 {}'',
      sample_times = [0, 40],
      log_data = [[1, 1], [0, 0]],
      args_left_to_right = False\<rparr>"

definition failing_lib :: lib where
  "failing_lib =
     \<lparr>choose_best_solve = (\<lambda>p g. \<lparr>iterates = [], reply_result = failed_result\<rparr>),
      ipopt_solve = (\<lambda>p g. \<lparr>iterates = [], reply_result = failed_result\<rparr>),
      fopen_ok = (\<lambda>path mode. False),
      gvFreeContext_ret = 1,
      graphviz_string = ''digraph _1 {}'',
      sample_times = [0, 40],
      log_data = [[1, 1], [0, 0]],
      args_left_to_right = False\<rparr>"

text \<open>A library that answers every solver call with the result \<open>res\<close>, and is otherwise \<open>lib\<close>.\<close>

definition with_result :: "result \<Rightarrow> lib \<Rightarrow> lib" where
  "with_result res lib =
     lib\<lparr>choose_best_solve := (\<lambda>p g. (choose_best_solve lib p g)\<lparr>reply_result := res\<rparr>),
         ipopt_solve := (\<lambda>p g. (ipopt_solve lib p g)\<lparr>reply_result := res\<rparr>)\<rparr>"

section \<open>Evaluating the programs\<close>

lemmas lib_defs =
  MathematicalProgram_def NewContinuousVariables_def NewContinuousVariablesMatrix_def
  AddConstraint_def AddCost_def AddVisualizationCallback_def query_def call_def elem_def
  print_def utils_print_def update_def Solve_def program_of_def Let_def

lemma run_callbacks_none: "run_callbacks [] its tr = tr"
  by (induction its arbitrary: tr) simp_all

lemma run_callbacks_update:
  "run_callbacks [(Update, vs)] its tr =
     tr @ map (\<lambda>it. E_Stdout [PStr ''x = '', PVec (map it vs), PStr ''\<newline>---\<newline>'']) its"
  by (induction its arbitrary: tr) (simp_all add: update_def print_def)

lemma upt_0_2: "[0..<2] = [0, 1]"
  by (simp add: upt_rec)

lemmas run_simps = lib_defs run_callbacks_none run_callbacks_update upt_0_2

lemma stdout_of_callback_output:
  "stdout_of (map (\<lambda>it. E_Stdout (f it)) its) = map f its"
  by (induction its) simp_all

lemma follows_order_callback_output:
  "follows_order Solved n (map (\<lambda>it. E_Stdout (f it)) its)"
  by (induction its) simp_all

lemma with_result_iterates:
  "iterates (choose_best_solve (with_result res lib) p g) = iterates (choose_best_solve lib p g)"
  "iterates (ipopt_solve (with_result res lib) p g) = iterates (ipopt_solve lib p g)"
  by (simp_all add: with_result_def)


lemma model_files_append: "model_files (xs @ ys) = model_files xs @ model_files ys"
  by (induction xs rule: model_files.induct) simp_all

text \<open>The order check does reject: a result read before any solve, an undeclared variable.\<close>

lemma follows_order_rejects:
  "\<not> follows_order Declaring 0 [E_NewContinuousVariables 2 1 ''x'', E_Result Get_is_success]"
  "\<not> follows_order Declaring 0 [E_NewContinuousVariables 1 1 ''x'',
       E_AddConstraint (Le (Var 1) (Const 0))]"
  "\<not> follows_order Declaring 0 [E_NewContinuousVariables 1 1 ''x'',
       E_Solve ChooseBestSolver None]"
  by simp_all

section \<open>The two constraint sets\<close>

lemma infeasible_constraints:
  "constraints_of (events (main_infeasible lib args)) =
     [Ge (Add (Var 0) (Var 1)) (Const 1), Le (Add (Var 0) (Var 1)) (Const 0)]"
  by (simp add: main_infeasible_def lib_defs run_callbacks_none)

text \<open>
  Claim C8. The infeasible example adds exactly the two constraints \<open>x + y \<ge> 1\<close> and
  \<open>x + y \<le> 0\<close>, and no assignment of reals to the variables satisfies both: the problem
  the program builds has no feasible point.
\<close>

theorem infeasible_example_unsatisfiable:
  "constraints_of (events (main_infeasible lib args)) =
     [Ge (Add (Var 0) (Var 1)) (Const 1), Le (Add (Var 0) (Var 1)) (Const 0)] \<and>
   \<not> list_all (holds env) (constraints_of (events (main_infeasible lib args)))"
  by (simp add: infeasible_constraints)

lemma feasible_constraints:
  "constraints_of (events (main_feasible lib args)) =
     [Eq (Add (Var 0) (Var 1)) (Const 1), Le (Var 0) (Var 1)]"
  by (simp add: main_feasible_def lib_defs run_callbacks_none upt_0_2)

lemma feasible_costs:
  "costs_of (events (main_feasible lib args)) = [Add (Pow (Var 0) 2) (Pow (Var 1) 2)]"
  by (simp add: main_feasible_def lib_defs run_callbacks_none upt_0_2)

lemma two_squares:
  fixes a b :: real
  assumes "a + b = 1"
  shows "a ^ 2 + b ^ 2 = 1 / 2 + 2 * (a - 1 / 2) ^ 2"
proof -
  have b: "b = 1 - a" using assms by simp
  show ?thesis unfolding b by (simp add: power2_eq_square algebra_simps)
qed

text \<open>
  Claim C9. In the feasible example every point that satisfies the constraints
  \<open>x0 + x1 = 1\<close> and \<open>x0 \<le> x1\<close> has cost \<open>x0\<^sup>2 + x1\<^sup>2\<close> at least \<open>1/2\<close>, with equality
  exactly at \<open>x0 = x1 = 1/2\<close>; that point is feasible and has cost \<open>1/2\<close>, so it is the
  unique optimum.
\<close>

theorem feasible_example_unique_optimum:
  "(list_all (holds env) (constraints_of (events (main_feasible lib args))) \<longrightarrow>
      1 / 2 \<le> total_cost env (costs_of (events (main_feasible lib args))) \<and>
      (total_cost env (costs_of (events (main_feasible lib args))) = 1 / 2
         \<longleftrightarrow> env 0 = 1 / 2 \<and> env 1 = 1 / 2)) \<and>
   list_all (holds (\<lambda>v. 1 / 2)) (constraints_of (events (main_feasible lib args))) \<and>
   total_cost (\<lambda>v. 1 / 2) (costs_of (events (main_feasible lib args))) = 1 / 2"
proof -
  have opt: "1 / 2 \<le> a ^ 2 + b ^ 2 \<and> (a ^ 2 + b ^ 2 = 1 / 2 \<longleftrightarrow> a = 1 / 2 \<and> b = 1 / 2)"
    if sum: "a + b = 1" for a b :: real
  proof -
    have eq: "a ^ 2 + b ^ 2 = 1 / 2 + 2 * (a - 1 / 2) ^ 2"
      by (rule two_squares [OF sum])
    have "0 \<le> (a - 1 / 2) ^ 2" by simp
    then have lower: "1 / 2 \<le> a ^ 2 + b ^ 2" using eq by linarith
    have "a ^ 2 + b ^ 2 = 1 / 2 \<longleftrightarrow> (a - 1 / 2) ^ 2 = 0" using eq by linarith
    also have "\<dots> \<longleftrightarrow> a = 1 / 2" by simp
    also have "\<dots> \<longleftrightarrow> a = 1 / 2 \<and> b = 1 / 2" using sum by auto
    finally show ?thesis using lower by simp
  qed
  have half: "(1 / 2) ^ 2 + (1 / 2) ^ 2 = (1 / 2 :: real)"
    by (simp add: power2_eq_square)
  show ?thesis
    using opt [of "env 0" "env 1"] half
    by (simp add: feasible_constraints feasible_costs total_cost_def)
qed

text \<open>The theorem at the point \<open>(0, 1)\<close>: feasible, with cost \<open>1\<close>, which is above \<open>1/2\<close>.\<close>

theorem feasible_example_unique_optimum_witness:
  "list_all (holds (\<lambda>v. if v = 0 then 0 else 1))
     (constraints_of (events (main_feasible working_lib []))) \<and>
   1 / 2 \<le> total_cost (\<lambda>v. if v = 0 then 0 else 1)
              (costs_of (events (main_feasible working_lib []))) \<and>
   total_cost (\<lambda>v. if v = 0 then 0 else 1)
     (costs_of (events (main_feasible working_lib []))) \<noteq> 1 / 2"
proof -
  have feasible: "list_all (holds (\<lambda>v. if v = 0 then 0 else 1))
     (constraints_of (events (main_feasible working_lib [])))"
    by (simp add: feasible_constraints)
  show ?thesis
    using feasible
      feasible_example_unique_optimum
        [of "\<lambda>v. if v = 0 then 0 else 1" working_lib "[]"]
    by simp
qed

section \<open>Rendering the diagram: \<open>createPNGFromDotFile\<close>\<close>

lemma createPNG_events:
  "snd (createPNGFromDotFile lib nm tr) =
     tr @
     [E_Call ''gvContext'' [],
      E_Call ''fopen'' [AStr (nm @ ''.dot''), AStr ''r''],
      E_Call ''agread''
        [AFile (if fopen_ok lib (nm @ ''.dot'') ''r'' then FilePtr (nm @ ''.dot'') ''r''
                else NullFile), AInt 0],
      E_Call ''gvLayout'' [AObj ''gvc'', AObj ''g'', AStr ''dot''],
      E_Call ''fopen'' [AStr (nm @ ''.png''), AStr ''w''],
      E_Call ''gvRender''
        [AObj ''gvc'', AObj ''g'', AStr ''png'',
         AFile (if fopen_ok lib (nm @ ''.png'') ''w'' then FilePtr (nm @ ''.png'') ''w''
                else NullFile)],
      E_Call ''gvFreeLayout'' [AObj ''gvc'', AObj ''g''],
      E_Call ''agclose'' [AObj ''g''],
      E_Call ''gvFreeContext'' [AObj ''gvc'']]"
  by (simp add: createPNGFromDotFile_def fopen_def call_def Let_def)

lemma createPNG_ret: "fst (createPNGFromDotFile lib nm tr) = (gvFreeContext_ret lib \<noteq> 0)"
  by (simp add: createPNGFromDotFile_def fopen_def call_def Let_def)

lemma main_comb_ignores:
  "main_combinations_of_systems (lib\<lparr>gvFreeContext_ret := r\<rparr>) args =
   main_combinations_of_systems lib args"
  by (simp add: main_combinations_of_systems_def createPNGFromDotFile_def fopen_def Let_def split_def)

lemma main_comb_calls:
  "take 23 (events (main_combinations_of_systems lib args)) =
     snd (createPNGFromDotFile lib ''graph''
            (take 14 (events (main_combinations_of_systems lib args))))"
  by (simp add: main_combinations_of_systems_def createPNG_events split_def call_def Let_def
      elem_def)

text \<open>
  Claim C10. \<open>createPNGFromDotFile\<close> opens the \<open>.dot\<close> input and the \<open>.png\<close> output with
  \<open>fopen\<close> and hands whatever comes back to \<open>agread\<close> and \<open>gvRender\<close>: it makes the same
  nine calls whether or not the files opened, so when a file cannot be opened the null
  pointer is passed on. Its result is the return value of \<open>gvFreeContext\<close>, and \<open>main\<close>,
  which calls it on \<open>graph\<close>, runs the same whatever that value is.
\<close>

theorem createPNGFromDotFile_consumes_null:
  "snd (createPNGFromDotFile lib nm tr) =
     tr @
     [E_Call ''gvContext'' [],
      E_Call ''fopen'' [AStr (nm @ ''.dot''), AStr ''r''],
      E_Call ''agread''
        [AFile (if fopen_ok lib (nm @ ''.dot'') ''r'' then FilePtr (nm @ ''.dot'') ''r''
                else NullFile), AInt 0],
      E_Call ''gvLayout'' [AObj ''gvc'', AObj ''g'', AStr ''dot''],
      E_Call ''fopen'' [AStr (nm @ ''.png''), AStr ''w''],
      E_Call ''gvRender''
        [AObj ''gvc'', AObj ''g'', AStr ''png'',
         AFile (if fopen_ok lib (nm @ ''.png'') ''w'' then FilePtr (nm @ ''.png'') ''w''
                else NullFile)],
      E_Call ''gvFreeLayout'' [AObj ''gvc'', AObj ''g''],
      E_Call ''agclose'' [AObj ''g''],
      E_Call ''gvFreeContext'' [AObj ''gvc'']] \<and>
   (\<not> fopen_ok lib (nm @ ''.dot'') ''r'' \<longrightarrow>
      E_Call ''agread'' [AFile NullFile, AInt 0] \<in> set (snd (createPNGFromDotFile lib nm tr))) \<and>
   (\<not> fopen_ok lib (nm @ ''.png'') ''w'' \<longrightarrow>
      E_Call ''gvRender'' [AObj ''gvc'', AObj ''g'', AStr ''png'', AFile NullFile]
        \<in> set (snd (createPNGFromDotFile lib nm tr))) \<and>
   fst (createPNGFromDotFile lib nm tr) = (gvFreeContext_ret lib \<noteq> 0) \<and>
   take 23 (events (main_combinations_of_systems lib args)) =
     snd (createPNGFromDotFile lib ''graph''
            (take 14 (events (main_combinations_of_systems lib args)))) \<and>
   main_combinations_of_systems (lib\<lparr>gvFreeContext_ret := r\<rparr>) args =
     main_combinations_of_systems lib args"
proof -
  have null_dot: "E_Call ''agread'' [AFile NullFile, AInt 0]
      \<in> set (snd (createPNGFromDotFile lib nm tr))"
    if "\<not> fopen_ok lib (nm @ ''.dot'') ''r''"
    using that by (simp add: createPNG_events)
  have null_png: "E_Call ''gvRender'' [AObj ''gvc'', AObj ''g'', AStr ''png'', AFile NullFile]
      \<in> set (snd (createPNGFromDotFile lib nm tr))"
    if "\<not> fopen_ok lib (nm @ ''.png'') ''w''"
    using that by (simp add: createPNG_events)
  show ?thesis
    using null_dot null_png createPNG_events [of lib nm tr] createPNG_ret [of lib nm tr]
      main_comb_calls [of lib args]
      main_comb_ignores [where lib = lib and r = r and args = args]
    by blast
qed

text \<open>With a library whose \<open>fopen\<close> fails, both null pointers are passed on.\<close>

theorem createPNGFromDotFile_consumes_null_witness:
  "\<not> fopen_ok failing_lib (''graph'' @ ''.dot'') ''r'' \<and>
   \<not> fopen_ok failing_lib (''graph'' @ ''.png'') ''w'' \<and>
   E_Call ''agread'' [AFile NullFile, AInt 0]
     \<in> set (snd (createPNGFromDotFile failing_lib ''graph'' [])) \<and>
   E_Call ''gvRender'' [AObj ''gvc'', AObj ''g'', AStr ''png'', AFile NullFile]
     \<in> set (snd (createPNGFromDotFile failing_lib ''graph'' []))"
proof -
  have closed: "\<not> fopen_ok failing_lib (''graph'' @ ''.dot'') ''r''"
    "\<not> fopen_ok failing_lib (''graph'' @ ''.png'') ''w''"
    by (simp_all add: failing_lib_def)
  show ?thesis
    using closed createPNGFromDotFile_consumes_null
        [where lib = failing_lib and nm = "''graph''" and tr = "[]" and r = 0 and args = "[]"]
    by blast
qed

section \<open>The command line of the model inspector\<close>

text \<open>
  Claim C1. The filename that \<open>main\<close> forwards to \<open>model_inspector\<close> should be a valid,
  non-null string for every \<open>argc\<close> and \<open>argv\<close>. Run with no argument (\<open>argc = 1\<close>), \<open>main\<close>
  writes the usage line, does not return, creates the visualiser and then builds the
  \<open>std::string\<close> parameter from \<open>argv[1]\<close>, which is the null pointer that ends \<open>argv\<close>.
\<close>

theorem meshcat_sdf_without_argument:
  "main_meshcat_sdf lib [''meshcat_sdf''] =
     UB [E_Stdout [PStr ''Usage: '', PCStr (CStr ''meshcat_sdf''),
                   PStr '' path-to-sdf-file\<newline>''],
         E_Call ''std::make_shared<Meshcat>'' [AInt 8080]]
        StringFromNull"
  by (simp add: main_meshcat_sdf_def argv_at_def cout_def call_def)

lemma model_inspector_events:
  "model_inspector f tr = tr @ model_inspector f []"
  by (simp add: model_inspector_def call_def Let_def)



lemma meshcat_with_argument:
  assumes "2 \<le> length args"
  shows "main_meshcat_sdf lib args =
           Exit ((if length args \<noteq> 2 then [E_Stdout (usage_line args)] else []) @
                 E_Call ''std::make_shared<Meshcat>'' [AInt 8080] #
                 model_inspector (args ! 1) []) 0"
proof -
  have "argv_at args 1 = CStr (args ! 1)"
    using assms by (simp add: argv_at_def)
  then show ?thesis
    by (simp add: main_meshcat_sdf_def cout_def call_def usage_line_def model_inspector_def
        Let_def)
qed








lemma meshcat_exit_code:
  "exit_code (main_meshcat_sdf lib args) = (if 2 \<le> length args then Some 0 else None)"
proof (cases "2 \<le> length args")
  case True
  then show ?thesis by (simp add: meshcat_with_argument)
next
  case False
  then have "argv_at args 1 = CNull \<or> argv_at args 1 = COutOfBounds"
    by (auto simp add: argv_at_def)
  then show ?thesis
    using False by (auto simp add: main_meshcat_sdf_def)
qed




section \<open>Failure handling\<close>


lemma exit_codes:
  "exit_code (main_infeasible lib args) = Some 0"
  "exit_code (main_manually_choosing_a_solver lib args) = Some 0"
  "exit_code (main_add_callback lib args) = Some 0"
  "exit_code (main_feasible lib args) = Some 0"
  "exit_code (main_good_or_bad_initial_guess lib args) = Some 0"
  by (simp_all add: main_infeasible_def main_manually_choosing_a_solver_def
      main_add_callback_def main_feasible_def main_good_or_bad_initial_guess_def run_simps)

lemma shapes:
  "map shape (events (main_infeasible (with_result res lib) args)) =
   map shape (events (main_infeasible lib args))"
  "map shape (events (main_manually_choosing_a_solver (with_result res lib) args)) =
   map shape (events (main_manually_choosing_a_solver lib args))"
  "map shape (events (main_add_callback (with_result res lib) args)) =
   map shape (events (main_add_callback lib args))"
  "map shape (events (main_feasible (with_result res lib) args)) =
   map shape (events (main_feasible lib args))"
  "map shape (events (main_good_or_bad_initial_guess (with_result res lib) args)) =
   map shape (events (main_good_or_bad_initial_guess lib args))"
  by (simp_all add: main_infeasible_def main_manually_choosing_a_solver_def
      main_add_callback_def main_feasible_def main_good_or_bad_initial_guess_def run_simps
      with_result_iterates)

lemma printed_infeasible:
  "(let r = reply_result (choose_best_solve lib
              (solved_program (events (main_infeasible lib args))) None)
    in printed_after_solve (events (main_infeasible lib args)) =
         [[PStr ''Success: '', PBool (is_success r), PStr ''\<newline>---\<newline>''],
          [PStr ''Solution result: '', PSolutionResult (get_solution_result r),
           PStr ''\<newline>---\<newline>'']])"
  by (simp add: main_infeasible_def run_simps printed_after_solve_def solved_program_def)

lemma printed_manually:
  "(let r = reply_result (ipopt_solve lib
              (solved_program (events (main_manually_choosing_a_solver lib args)))
              (Some [1, 1]))
    in printed_after_solve (events (main_manually_choosing_a_solver lib args)) =
         [[PSolutionResult (get_solution_result r), PStr ''\<newline>---\<newline>''],
          [PStr ''x* = '', PVec [x_val r 0, x_val r 1], PStr ''\<newline>---\<newline>''],
          [PStr ''Solver is '', PStr (solver_name r), PStr ''\<newline>---\<newline>''],
          [PStr ''Ipopt solver status: '', PInt (ipopt_status r), PStr '', meaning '',
           PStr (ipopt_status_string r), PStr ''\<newline>---\<newline>'']])"
  by (simp add: main_manually_choosing_a_solver_def run_simps printed_after_solve_def
      solved_program_def)

lemma printed_feasible:
  "(let r = reply_result (choose_best_solve lib
              (solved_program (events (main_feasible lib args))) None)
    in printed_after_solve (events (main_feasible lib args)) =
         [[PStr ''Success: '', PBool (is_success r), PStr ''\<newline>---\<newline>''],
          [PStr ''x* = '', PVec [x_val r 0, x_val r 1], PStr ''\<newline>---\<newline>''],
          [PStr ''optimal cost = '', PReal (get_optimal_cost r), PStr ''\<newline>---\<newline>''],
          [PStr ''solver is: '', PStr (solver_name r), PStr ''\<newline>---\<newline>'']])"
  by (simp add: main_feasible_def run_simps printed_after_solve_def solved_program_def)

lemma printed_good_or_bad:
  "(let p = solved_program (events (main_good_or_bad_initial_guess lib args));
        r1 = reply_result (ipopt_solve lib p None);
        r2 = reply_result (ipopt_solve lib p (Some [- 5, 0]))
    in printed_after_solve (events (main_good_or_bad_initial_guess lib args)) =
         [[PStr ''Without a good initial guess, success? '', PBool (is_success r1),
           PStr ''\<newline>---\<newline>''],
          [PStr ''Solution:'', PVec [x_val r1 0, x_val r1 1], PStr ''\<newline>---\<newline>''],
          [PStr ''With a good initial guess, success? '', PBool (is_success r2),
           PStr ''\<newline>---\<newline>''],
          [PStr ''Solution:'', PVec [x_val r2 0, x_val r2 1], PStr ''\<newline>---\<newline>'']])"
  by (simp add: main_good_or_bad_initial_guess_def run_simps printed_after_solve_def
      solved_program_def)

lemma printed_add_callback:
  "printed_after_solve (events (main_add_callback lib args)) =
     map (\<lambda>it. [PStr ''x = '', PVec [it 0, it 1], PStr ''\<newline>---\<newline>''])
       (iterates (choose_best_solve lib
          (solved_program (events (main_add_callback lib args))) (Some [4, 5])))"
  by (simp add: main_add_callback_def run_simps printed_after_solve_def solved_program_def
      stdout_of_callback_output)









section \<open>Solver results\<close>

text \<open>
  Claim C3. Each of the five programs that invoke a solver returns exit code 0 and makes
  the same calls in the same order whatever result the solver returns; what it writes
  after the solve is the fields of the returned result, as returned, under fixed labels
  (for \<open>add_callback.cpp\<close>, which discards the result, only the output of its callback).
\<close>

theorem solver_result_only_printed:
  "list_all (\<lambda>p. exit_code (p lib args) = Some 0 \<and>
                  exit_code (p (with_result res lib) args) = Some 0 \<and>
                  map shape (events (p (with_result res lib) args)) =
                    map shape (events (p lib args)))
     [main_infeasible, main_manually_choosing_a_solver, main_add_callback, main_feasible,
      main_good_or_bad_initial_guess] \<and>
   (let r = reply_result (choose_best_solve lib
              (solved_program (events (main_infeasible lib args))) None)
    in printed_after_solve (events (main_infeasible lib args)) =
         [[PStr ''Success: '', PBool (is_success r), PStr ''\<newline>---\<newline>''],
          [PStr ''Solution result: '', PSolutionResult (get_solution_result r),
           PStr ''\<newline>---\<newline>'']]) \<and>
   (let r = reply_result (ipopt_solve lib
              (solved_program (events (main_manually_choosing_a_solver lib args)))
              (Some [1, 1]))
    in printed_after_solve (events (main_manually_choosing_a_solver lib args)) =
         [[PSolutionResult (get_solution_result r), PStr ''\<newline>---\<newline>''],
          [PStr ''x* = '', PVec [x_val r 0, x_val r 1], PStr ''\<newline>---\<newline>''],
          [PStr ''Solver is '', PStr (solver_name r), PStr ''\<newline>---\<newline>''],
          [PStr ''Ipopt solver status: '', PInt (ipopt_status r), PStr '', meaning '',
           PStr (ipopt_status_string r), PStr ''\<newline>---\<newline>'']]) \<and>
   (let r = reply_result (choose_best_solve lib
              (solved_program (events (main_feasible lib args))) None)
    in printed_after_solve (events (main_feasible lib args)) =
         [[PStr ''Success: '', PBool (is_success r), PStr ''\<newline>---\<newline>''],
          [PStr ''x* = '', PVec [x_val r 0, x_val r 1], PStr ''\<newline>---\<newline>''],
          [PStr ''optimal cost = '', PReal (get_optimal_cost r), PStr ''\<newline>---\<newline>''],
          [PStr ''solver is: '', PStr (solver_name r), PStr ''\<newline>---\<newline>'']]) \<and>
   (let p = solved_program (events (main_good_or_bad_initial_guess lib args));
        r1 = reply_result (ipopt_solve lib p None);
        r2 = reply_result (ipopt_solve lib p (Some [- 5, 0]))
    in printed_after_solve (events (main_good_or_bad_initial_guess lib args)) =
         [[PStr ''Without a good initial guess, success? '', PBool (is_success r1),
           PStr ''\<newline>---\<newline>''],
          [PStr ''Solution:'', PVec [x_val r1 0, x_val r1 1], PStr ''\<newline>---\<newline>''],
          [PStr ''With a good initial guess, success? '', PBool (is_success r2),
           PStr ''\<newline>---\<newline>''],
          [PStr ''Solution:'', PVec [x_val r2 0, x_val r2 1], PStr ''\<newline>---\<newline>'']]) \<and>
   printed_after_solve (events (main_add_callback lib args)) =
     map (\<lambda>it. [PStr ''x = '', PVec [it 0, it 1], PStr ''\<newline>---\<newline>''])
       (iterates (choose_best_solve lib
          (solved_program (events (main_add_callback lib args))) (Some [4, 5])))"
proof -
  have codes_and_shapes:
    "list_all (\<lambda>p. exit_code (p lib args) = Some 0 \<and>
                  exit_code (p (with_result res lib) args) = Some 0 \<and>
                  map shape (events (p (with_result res lib) args)) =
                    map shape (events (p lib args)))
     [main_infeasible, main_manually_choosing_a_solver, main_add_callback, main_feasible,
      main_good_or_bad_initial_guess]"
    by (simp add: exit_codes shapes)
  show ?thesis
    using codes_and_shapes printed_infeasible [of lib args] printed_manually [of lib args]
      printed_feasible [of lib args] printed_good_or_bad [of lib args]
      printed_add_callback [of lib args]
    by (intro conjI)
qed

lemma infeasible_failed_run:
  "printed_after_solve (events (main_infeasible failing_lib [])) =
     [[PStr ''Success: '', PBool False, PStr ''\<newline>---\<newline>''],
      [PStr ''Solution result: '', PSolutionResult kInfeasibleConstraints,
       PStr ''\<newline>---\<newline>'']]"
  by (simp add: main_infeasible_def run_simps printed_after_solve_def failing_lib_def
      failed_result_def)

text \<open>
  With a library whose solver reports infeasibility, the infeasible example prints the
  two fields as returned and exits with 0.
\<close>

theorem solver_result_only_printed_witness:
  "exit_code (main_infeasible failing_lib []) = Some 0 \<and>
   exit_code (main_infeasible (with_result solved_result failing_lib) []) = Some 0 \<and>
   map shape (events (main_infeasible (with_result solved_result failing_lib) [])) =
     map shape (events (main_infeasible failing_lib [])) \<and>
   printed_after_solve (events (main_infeasible failing_lib [])) =
     [[PStr ''Success: '', PBool False, PStr ''\<newline>---\<newline>''],
      [PStr ''Solution result: '', PSolutionResult kInfeasibleConstraints,
       PStr ''\<newline>---\<newline>'']]"
  using solver_result_only_printed [of failing_lib "[]" solved_result] infeasible_failed_run
  by simp

section \<open>The order of the calls on a mathematical program\<close>

text \<open>
  Claim C6, as stated, says that each mathematical-program example declares variables,
  adds constraints or costs, and then invokes a solver. \<open>basics.cpp\<close> is one of the six
  and only declares variables and prints expressions over them.
\<close>

theorem basics_never_solves:
  "\<not> stated_order (events (main_basics working_lib))"
  by (simp add: stated_order_def main_basics_def run_simps)

lemma basics_order:
  "follows_order Declaring 0 (events (main_basics lib))"
  "list_ex is_declare (events (main_basics lib))"
  "\<not> list_ex is_add (events (main_basics lib))"
  "\<not> list_ex is_solve (events (main_basics lib))"
  by (simp_all add: main_basics_def run_simps)

lemma solver_programs_order:
  "stated_order (events (main_infeasible lib args))"
  "stated_order (events (main_manually_choosing_a_solver lib args))"
  "stated_order (events (main_add_callback lib args))"
  "stated_order (events (main_feasible lib args))"
  "stated_order (events (main_good_or_bad_initial_guess lib args))"
  by (simp_all add: stated_order_def main_infeasible_def main_manually_choosing_a_solver_def
      main_add_callback_def main_feasible_def main_good_or_bad_initial_guess_def run_simps
      follows_order_callback_output)

text \<open>
  Claim C6, amended. The five mathematical-program examples other than \<open>basics.cpp\<close>
  declare their decision variables first, then add constraints and costs that mention
  only variables already declared, then invoke a solver, and read a result only after a
  solver has been invoked. \<open>basics.cpp\<close> declares variables, in the same order discipline,
  and neither adds a constraint or cost nor invokes a solver.
\<close>

theorem api_used_in_stated_order:
  "list_all (\<lambda>p. stated_order (events (p lib args)))
     [main_infeasible, main_manually_choosing_a_solver, main_add_callback, main_feasible,
      main_good_or_bad_initial_guess] \<and>
   follows_order Declaring 0 (events (main_basics lib)) \<and>
   list_ex is_declare (events (main_basics lib)) \<and>
   \<not> list_ex is_add (events (main_basics lib)) \<and>
   \<not> list_ex is_solve (events (main_basics lib))"
  by (simp add: solver_programs_order basics_order)

section \<open>Running to completion\<close>

lemma combinations_exit_code:
  "exit_code (main_combinations_of_systems lib args) =
     (if log_data lib \<noteq> [] \<and> sample_times lib \<noteq> [] then Some 0 else None)"
  by (simp add: main_combinations_of_systems_def createPNGFromDotFile_def fopen_def
      call_def Let_def elem_def split_def)

lemma other_exit_codes:
  "exit_code (main_basics lib) = Some 0"
  "exit_code (main_symbolic_vector_system lib args) = Some 0"
  by (simp_all add: main_basics_def main_symbolic_vector_system_def run_simps)

text \<open>
  Claim C2. Each of the nine programs should perform a finite sequence of calls and
  return. Seven of them return 0 for every library and command line;
  \<open>combinations_of_systems.cpp\<close> returns 0 whenever the log it plots holds a sample; and
  \<open>meshcat_sdf.cpp\<close> returns 0 when \<open>argv[1]\<close> is there. Run with no argument it does not
  return: after the usage line and the visualiser it builds a \<open>std::string\<close> from the null
  pointer. Whether a call blocks or starts a thread is the library's business and has no
  counterpart here.
\<close>

theorem programs_return_but_one:
  "exit_code (main_meshcat_sdf lib [''meshcat_sdf'']) = None \<and>
   \<not> list_all (\<lambda>(nm, p). \<exists>tr c. p lib [''meshcat_sdf''] = Exit tr c) programs \<and>
   list_all (\<lambda>p. exit_code (p lib args) = Some 0)
     [main_infeasible, main_manually_choosing_a_solver, \<lambda>lib args. main_basics lib,
      main_add_callback, main_feasible, main_good_or_bad_initial_guess,
      main_symbolic_vector_system] \<and>
   exit_code (main_combinations_of_systems lib args) =
     (if log_data lib \<noteq> [] \<and> sample_times lib \<noteq> [] then Some 0 else None) \<and>
   exit_code (main_meshcat_sdf lib args) = (if 2 \<le> length args then Some 0 else None)"
proof -
  have none: "exit_code (main_meshcat_sdf lib [''meshcat_sdf'']) = None"
    by (simp add: meshcat_exit_code)
  then have "\<not> (\<exists>tr c. main_meshcat_sdf lib [''meshcat_sdf''] = Exit tr c)"
    by auto
  then have not_all:
    "\<not> list_all (\<lambda>(nm, p). \<exists>tr c. p lib [''meshcat_sdf''] = Exit tr c) programs"
    by (simp add: programs_def)
  have seven: "list_all (\<lambda>p. exit_code (p lib args) = Some 0)
     [main_infeasible, main_manually_choosing_a_solver, \<lambda>lib args. main_basics lib,
      main_add_callback, main_feasible, main_good_or_bad_initial_guess,
      main_symbolic_vector_system]"
    by (simp add: exit_codes other_exit_codes)
  show ?thesis
    using none not_all seven combinations_exit_code [of lib args] meshcat_exit_code [of lib args]
    by (intro conjI)
qed

end
